theory Spec2Isabelle
  imports Complex_Main
begin

section \<open>The biography component of thefinnternet\<close>

text \<open>
  The repository holds two versions of the \<^verbatim>\<open>Bio\<close> component. Both hand a render
  callback to Gatsby's \<^verbatim>\<open>StaticQuery\<close>; the callback receives the result of the
  component's own GraphQL query and returns a React element tree. The callbacks are what
  is embedded here:
  \<^item> \<^verbatim>\<open>src/components/bio.js\<close> draws the avatar with \<^verbatim>\<open>gatsby-image\<close> from the rendition
    the query asks for;
  \<^item> the second version (an unnamed source file) draws it with a plain \<^verbatim>\<open>img\<close> from an
    imported asset.
\<close>

subsection \<open>The query result\<close>

text \<open>
  The shape of the data is fixed by the \<^verbatim>\<open>BioQuery\<close> of each file. A GraphQL field is
  nullable: a field with a selection set resolves to an object or to \<^verbatim>\<open>null\<close> (an
  \<open>option\<close>, \<open>None\<close> being \<^verbatim>\<open>null\<close>), a leaf of \<^verbatim>\<open>siteMetadata\<close> to a string or to
  \<^verbatim>\<open>null\<close>. The rendition selected by the fragment \<^verbatim>\<open>GatsbyImageSharpFixed\<close> is handed
  on untouched, so its type is a parameter.
\<close>

datatype scalar = Null | Str string

record Social =
  github :: scalar
  email :: scalar

record SiteMetadata =
  author :: scalar
  social :: "Social option"

record Site =
  siteMetadata :: "SiteMetadata option"

record 'f ImageSharp =
  fixed :: "'f option"

record 'f File =
  childImageSharp :: "'f ImageSharp option"

text \<open>The query of the plain-image version selects \<^verbatim>\<open>site\<close> only; the query of
  \<^verbatim>\<open>bio.js\<close> selects \<^verbatim>\<open>avatar\<close> as well.\<close>

record SiteQuery =
  site :: "Site option"

record 'f BioQuery = SiteQuery +
  avatar :: "'f File option"

subsection \<open>Errors and the JavaScript operations used\<close>

text \<open>Reading a property of \<^verbatim>\<open>null\<close>, or destructuring it, throws a \<^verbatim>\<open>TypeError\<close>.\<close>

datatype error = TypeError

fun deref :: "'a option \<Rightarrow> error + 'a" where
  "deref None = Inl TypeError"
| "deref (Some obj) = Inr obj"

fun and_then :: "error + 'a \<Rightarrow> ('a \<Rightarrow> error + 'b) \<Rightarrow> error + 'b" where
  "and_then (Inl e) f = Inl e"
| "and_then (Inr x) f = f x"

text \<open>A substitution \<^verbatim>\<open>${v}\<close> of a template literal converts \<^verbatim>\<open>v\<close> to a string;
  \<^verbatim>\<open>null\<close> becomes the text \<^verbatim>\<open>null\<close>.\<close>

fun to_string :: "scalar \<Rightarrow> string" where
  "to_string Null = ''null''"
| "to_string (Str s) = s"

subsection \<open>React elements\<close>

text \<open>
  A style object maps property names to strings, numbers or results of \<^verbatim>\<open>rhythm\<close>.
  The function \<^verbatim>\<open>rhythm\<close> is imported from \<^verbatim>\<open>../utils/typography\<close>, which is not among
  the sources: it is a parameter \<open>rhythm :: rat \<Rightarrow> 'r\<close> of the components, and a value
  it returned is kept under its own constructor. Its three arguments in the source,
  \<^verbatim>\<open>2.5\<close>, \<^verbatim>\<open>1 / 2\<close> and \<^verbatim>\<open>3\<close>, are exact as rationals and as doubles.
\<close>

datatype 'r css = CStr string | CNum int | CScale 'r

datatype ('r, 'f) propval =
    PVal scalar
  | PStyle "(string \<times> 'r css) list"
  | PFixed "'f option"

text \<open>An element has a type (a host tag, or the name of an imported component such as
  \<^verbatim>\<open>Image\<close>), its props in the order written, and its children. A child is JSX text,
  an expression \<^verbatim>\<open>{v}\<close> kept as the value it evaluated to, or an element.\<close>

datatype ('r, 'f) element =
    Text string
  | Expr scalar
  | Element string "(string \<times> ('r, 'f) propval) list" "('r, 'f) element list"

subsection \<open>The render callback of \<^verbatim>\<open>src/components/bio.js\<close>\<close>

definition Bio :: "(rat \<Rightarrow> 'r) \<Rightarrow> 'f BioQuery \<Rightarrow> error + ('r, 'f) element" where
  "Bio rhythm data =
    and_then (deref (site data)) (\<lambda>site'.
    and_then (deref (siteMetadata site')) (\<lambda>meta.
    let author' = author meta; social' = social meta in
    and_then (deref (avatar data)) (\<lambda>avatar'.
    and_then (deref (childImageSharp avatar')) (\<lambda>sharp.
    and_then (deref social') (\<lambda>s1.
    and_then (deref social') (\<lambda>s2.
    Inr (
      Element ''div''
        [(''style'', PStyle
            [(''display'', CStr ''flex''),
             (''marginBottom'', CScale (rhythm 2.5))])]
        [Element ''Image''
           [(''fixed'', PFixed (fixed sharp)),
            (''alt'', PVal author'),
            (''style'', PStyle
               [(''marginRight'', CScale (rhythm (1 / 2))),
                (''marginBottom'', CNum 0),
                (''minWidth'', CNum 100),
                (''minHeight'', CNum 100),
                (''borderRadius'', CStr ''100%'')]),
            (''imgStyle'', PStyle
               [(''borderRadius'', CStr ''50%'')])]
           [],
         Element ''p'' []
           [Text ''Written by '',
            Element ''strong'' [] [Expr author'],
            Text '', a software consultant from Boston, MA who works with React, React-Native, and Typescript. He can sometimes be found crossing enemy lines to work on the backend with Node, GraphQL, and Postgres.'',
            Element ''br'' [] [],
            Element ''a''
              [(''href'', PVal (Str (''https://github.com/'' @ to_string (github s1)))),
               (''target'', PVal (Str ''_blank'')),
               (''rel'', PVal (Str ''noopener noreferrer''))]
              [Text ''Checkout his work on github''],
            Element ''span'' [] [Text '' & ''],
            Element ''a''
              [(''href'', PVal (Str (''mailto:'' @ to_string (email s2))))]
              [Text ''get in touch'']]])))))))"

subsection \<open>The render callback of the plain-image version\<close>

text \<open>\<^verbatim>\<open>profilePic\<close> is the imported asset \<^verbatim>\<open>content/assets/profile-pic.jpg\<close>: the
  bundler binds it to the asset's URL, a parameter here.\<close>

definition Bio_part_001 ::
  "(rat \<Rightarrow> 'r) \<Rightarrow> string \<Rightarrow> 'a SiteQuery_scheme \<Rightarrow> error + ('r, 'f) element" where
  "Bio_part_001 rhythm profilePic data =
    and_then (deref (site data)) (\<lambda>site'.
    and_then (deref (siteMetadata site')) (\<lambda>meta.
    let author' = author meta; social' = social meta in
    and_then (deref social') (\<lambda>s1.
    and_then (deref social') (\<lambda>s2.
    Inr (
      Element ''div''
        [(''style'', PStyle
            [(''display'', CStr ''flex''),
             (''marginBottom'', CScale (rhythm 2.5))])]
        [Element ''img''
           [(''src'', PVal (Str profilePic)),
            (''alt'', PVal author'),
            (''style'', PStyle
               [(''marginRight'', CScale (rhythm (1 / 2))),
                (''marginBottom'', CNum 0),
                (''width'', CScale (rhythm 3)),
                (''height'', CScale (rhythm 3)),
                (''borderRadius'', CStr ''50%'')])]
           [],
         Element ''p'' []
           [Text ''Personal blog by '',
            Element ''strong'' [] [Expr author'],
            Text ''.'',
            Element ''br'' [] [],
            Text ''Musings and write-ups about coding stuff.'',
            Element ''br'' [] [],
            Element ''a''
              [(''href'', PVal (Str (''https://github.com/'' @ to_string (github s1)))),
               (''target'', PVal (Str ''_blank'')),
               (''rel'', PVal (Str ''noopener noreferrer''))]
              [Text ''Checkout his work on github''],
            Element ''span'' [] [Text '' & ''],
            Element ''a''
              [(''href'', PVal (Str (''mailto:'' @ to_string (email s2))))]
              [Text ''get in touch'']]])))))"

subsection \<open>Reading a render tree\<close>

text \<open>The elements of a tree in document order, the tree's root first.\<close>

fun elements :: "('r, 'f) element \<Rightarrow> ('r, 'f) element list" where
  "elements (Element t ps cs) = Element t ps cs # concat (map elements cs)"
| "elements (Text s) = []"
| "elements (Expr v) = []"

fun tag :: "('r, 'f) element \<Rightarrow> string" where
  "tag (Element t ps cs) = t"
| "tag (Text s) = []"
| "tag (Expr v) = []"

fun props :: "('r, 'f) element \<Rightarrow> (string \<times> ('r, 'f) propval) list" where
  "props (Element t ps cs) = ps"
| "props (Text s) = []"
| "props (Expr v) = []"

definition attr :: "('r, 'f) element \<Rightarrow> string \<Rightarrow> ('r, 'f) propval option" where
  "attr e k = map_of (props e) k"

definition hyperlinks :: "('r, 'f) element \<Rightarrow> ('r, 'f) element list" where
  "hyperlinks e = filter (\<lambda>x. tag x = ''a'') (elements e)"

text \<open>An image element is a host \<^verbatim>\<open>img\<close> or the \<^verbatim>\<open>Image\<close> of \<^verbatim>\<open>gatsby-image\<close>.\<close>

definition images :: "('r, 'f) element \<Rightarrow> ('r, 'f) element list" where
  "images e = filter (\<lambda>x. tag x = ''img'' \<or> tag x = ''Image'') (elements e)"

definition text_blocks :: "('r, 'f) element \<Rightarrow> ('r, 'f) element list" where
  "text_blocks e = filter (\<lambda>x. tag x = ''p'') (elements e)"

text \<open>The pieces of text a tree shows, in document order; \<^verbatim>\<open>{null}\<close> shows nothing.\<close>

fun texts :: "('r, 'f) element \<Rightarrow> string list" where
  "texts (Text s) = [s]"
| "texts (Expr Null) = []"
| "texts (Expr (Str s)) = [s]"
| "texts (Element t ps cs) = concat (map texts cs)"

text \<open>The rendered tree as a list: empty when the render threw.\<close>

fun rendered :: "error + ('r, 'f) element \<Rightarrow> ('r, 'f) element list" where
  "rendered (Inl e) = []"
| "rendered (Inr t) = [t]"

subsection \<open>The size of an image element\<close>

text \<open>
  Modelled from the spec: the fields of the rendition that the fragment
  \<^verbatim>\<open>GatsbyImageSharpFixed\<close> selects are declared by the image plugin, not by this
  repository. The specification describes the avatar's rendition as a fixed-size one,
  with a width and a height in pixels; whatever else a rendition carries is the
  extension of the record.
\<close>

record ImageRendition =
  width :: nat
  height :: nat

text \<open>The entries of an element's \<^verbatim>\<open>style\<close> prop, and those of them that give it a
  width or a height.\<close>

definition style_of :: "('r, 'f) element \<Rightarrow> (string \<times> 'r css) list" where
  "style_of e = (case attr e ''style'' of Some (PStyle kvs) \<Rightarrow> kvs | _ \<Rightarrow> [])"

definition dimension_keys :: "string list" where
  "dimension_keys =
    [''width'', ''height'', ''minWidth'', ''minHeight'', ''maxWidth'', ''maxHeight'']"

definition style_dimensions :: "('r, 'f) element \<Rightarrow> (string \<times> 'r css) list" where
  "style_dimensions e = filter (\<lambda>kv. fst kv \<in> set dimension_keys) (style_of e)"

text \<open>
  Modelled from the spec: \<^verbatim>\<open>gatsby-image\<close> is not in this repository. An image that is
  handed a fixed rendition as its \<^verbatim>\<open>fixed\<close> prop is as wide and as high as that
  rendition (the specification's fixed-size rendition, width and height in pixels); the
  query of \<^verbatim>\<open>bio.js\<close> asks for \<^verbatim>\<open>fixed(width: 50, height: 50)\<close>.
\<close>

definition rendition_dimensions ::
  "('r, 'x ImageRendition_scheme) element \<Rightarrow> (string \<times> 'r css) list" where
  "rendition_dimensions e =
    (case attr e ''fixed'' of
       Some (PFixed (Some r)) \<Rightarrow>
         [(''width'', CNum (int (width r))), (''height'', CNum (int (height r)))]
     | _ \<Rightarrow> [])"

text \<open>All that gives an element a width or a height: its rendition and its style.\<close>

definition dimensions ::
  "('r, 'x ImageRendition_scheme) element \<Rightarrow> (string \<times> 'r css) list" where
  "dimensions e = rendition_dimensions e @ style_dimensions e"

fun is_scale :: "'r css \<Rightarrow> bool" where
  "is_scale (CScale x) = True"
| "is_scale (CStr s) = False"
| "is_scale (CNum n) = False"

text \<open>An element is sized by the scale when it has dimensions and each of them is a
  result of \<^verbatim>\<open>rhythm\<close>.\<close>

definition sized_by_scale :: "('r, 'x ImageRendition_scheme) element \<Rightarrow> bool" where
  "sized_by_scale e = (dimensions e \<noteq> [] \<and> list_all is_scale (map snd (dimensions e)))"

subsection \<open>Which parts of a query result are there\<close>

text \<open>The objects the render callbacks read properties of.\<close>

definition has_metadata :: "'a SiteQuery_scheme \<Rightarrow> bool" where
  "has_metadata d =
    (case site d of None \<Rightarrow> False
     | Some s \<Rightarrow> (case siteMetadata s of None \<Rightarrow> False
       | Some m \<Rightarrow> social m \<noteq> None))"

definition has_avatar :: "'f BioQuery \<Rightarrow> bool" where
  "has_avatar d =
    (case avatar d of None \<Rightarrow> False | Some f \<Rightarrow> childImageSharp f \<noteq> None)"

text \<open>The fields the specification's invariant speaks of: \<^verbatim>\<open>author\<close> and
  \<^verbatim>\<open>social\<close> with \<^verbatim>\<open>github\<close> and \<^verbatim>\<open>email\<close>, none of them \<^verbatim>\<open>null\<close>.\<close>

definition has_author_and_social :: "'a SiteQuery_scheme \<Rightarrow> bool" where
  "has_author_and_social d =
    (case site d of None \<Rightarrow> False
     | Some s \<Rightarrow> (case siteMetadata s of None \<Rightarrow> False
       | Some m \<Rightarrow> author m \<noteq> Null \<and>
           (case social m of None \<Rightarrow> False
            | Some so \<Rightarrow> github so \<noteq> Null \<and> email so \<noteq> Null)))"

subsection \<open>Sample inputs\<close>

text \<open>The scenario of the specification, for any avatar rendition \<open>ref\<close>.\<close>

definition jane_social :: Social where
  "jane_social = \<lparr>github = Str ''janedoe'', email = Str ''jane@example.com''\<rparr>"

definition jane_metadata :: SiteMetadata where
  "jane_metadata = \<lparr>author = Str ''Jane Doe'', social = Some jane_social\<rparr>"

definition jane_site :: Site where
  "jane_site = \<lparr>siteMetadata = Some jane_metadata\<rparr>"

definition sharp_of :: "'f \<Rightarrow> 'f ImageSharp" where
  "sharp_of ref = \<lparr>fixed = Some ref\<rparr>"

definition file_of :: "'f \<Rightarrow> 'f File" where
  "file_of ref = \<lparr>childImageSharp = Some (sharp_of ref)\<rparr>"

definition jane :: "'f \<Rightarrow> 'f BioQuery" where
  "jane ref = \<lparr>site = Some jane_site, avatar = Some (file_of ref)\<rparr>"

text \<open>The same site under a handle that has a hyphen and reserved characters.\<close>

definition hyphen_social :: Social where
  "hyphen_social = \<lparr>github = Str ''jane-doe?tab=a&b'', email = Str ''jane@example.com''\<rparr>"

definition hyphen_metadata :: SiteMetadata where
  "hyphen_metadata = \<lparr>author = Str ''Jane Doe'', social = Some hyphen_social\<rparr>"

definition hyphen_site :: Site where
  "hyphen_site = \<lparr>siteMetadata = Some hyphen_metadata\<rparr>"

definition hyphenated :: "'f \<Rightarrow> 'f BioQuery" where
  "hyphenated ref = \<lparr>site = Some hyphen_site, avatar = Some (file_of ref)\<rparr>"

text \<open>The result of the plain-image version's query for the same site: it has no
  \<^verbatim>\<open>avatar\<close> field.\<close>

definition jane_site_query :: SiteQuery where
  "jane_site_query = \<lparr>site = Some jane_site\<rparr>"

text \<open>A result whose file query matched nothing: \<^verbatim>\<open>avatar\<close> is \<^verbatim>\<open>null\<close>.\<close>

definition jane_without_avatar :: "ImageRendition BioQuery" where
  "jane_without_avatar = \<lparr>site = Some jane_site, avatar = None\<rparr>"

text \<open>A scale that counts in lines, a rendition of the width and height the query
  of \<^verbatim>\<open>bio.js\<close> asks for, and a URL for the imported picture.\<close>

definition rhythm_lines :: "rat \<Rightarrow> rat" where
  "rhythm_lines n = n"

definition fixed_50 :: ImageRendition where
  "fixed_50 = \<lparr>width = 50, height = 50\<rparr>"

definition profile_pic_url :: string where
  "profile_pic_url = ''/static/profile-pic.jpg''"

section \<open>The content files\<close>

text \<open>
  The sources hold thirteen Markdown documents under \<^verbatim>\<open>content/blog\<close> and in the
  unnamed file \<^verbatim>\<open>part_000\<close>. Where a source file holds more than one, a separator line
  divides them, and the file name of a document after a separator is not known; such a
  document is named here after its title, or after the line it starts at. Each
  document is given by its first five lines, as bytes (three descriptions end in an
  emoji, four bytes in UTF-8): a front-matter block is read from these lines alone.
\<close>

text \<open>Javascript-basics/javascript_basics.md:\<close>

definition javascript_basics :: "string list" where
  \<open>javascript_basics =
    [''---'',
     ''title: JavaScript Basics'',
     ''date: "2019-08-19"'',
     ''description: A brief overview of some important JavaScript concepts.'',
     ''---'']\<close>

text \<open>The document after the separator at javascript-basics/javascript_basics.md:271:\<close>

definition react_native_routing :: "string list" where
  \<open>react_native_routing =
    [''---'',
     ''title: React-Native Routing'',
     ''date: "2019-09-03"'',
     ''description: How to handle routing and transitions in React-Native.'',
     ''---'']\<close>

text \<open>The document after the separator at javascript-basics/javascript_basics.md:511:\<close>

definition react_native_styling :: "string list" where
  \<open>react_native_styling =
    [''---'',
     ''title: React-Native Styling'',
     ''date: "2019-08-28"'',
     ''description: How to add some style to your React-Native apps.'',
     ''---'']\<close>

text \<open>React-and-typescript/index.md:\<close>

definition react_and_typescript :: "string list" where
  \<open>react_and_typescript =
    [''---'',
     ''title: React & Typescript'',
     ''date: "2019-04-24"'',
     ''description: Overview of using Typescript in your React project including setup, oddities, & some best practices.'',
     ''---'']\<close>

text \<open>React-native-dark-mode/index.md:\<close>

definition react_native_dark_mode :: "string list" where
  \<open>react_native_dark_mode =
    [''---'',
     ''title: React-Native Dark Mode'',
     ''date: "2019-11-18"'',
     ''description: Is an app even really an app without dark mode? '' @ [CHR 0xF0, CHR 0x9F, CHR 0xA4, CHR 0x94],
     ''---'']\<close>

text \<open>The document after the separator at react-native-dark-mode/index.md:187:\<close>

definition react_native_dark_mode_187 :: "string list" where
  \<open>react_native_dark_mode_187 =
    [''# Introduction'',
     ''In this post we will be implementing light and dark mode in our React-Native app using styled-components, context, and react-native-appearance. By the end of the post our app will default to the OS theme on start, update on OS theme change, and toggle light and dark based off of the switch. If a picture says a thousand words than a GIF says like a million or something so just look this GIF of what we will be making.'',
     '''',
     ''![Project Demo](demo.gif "Project Demo")'',
     '''']\<close>

text \<open>React-native-internationalization/index.md:\<close>

definition react_native_internationalization :: "string list" where
  \<open>react_native_internationalization =
    [''---'',
     ''title: React-Native Internationalization'',
     ''date: "2019-11-19"'',
     ''description: Is your app ready to go global? '' @ [CHR 0xF0, CHR 0x9F, CHR 0x8C, CHR 0x8E],
     ''---'']\<close>

text \<open>React-native-linting-and-testing/index.md:\<close>

definition react_native_linting_and_testing :: "string list" where
  \<open>react_native_linting_and_testing =
    [''---'',
     ''title: React-Native Linting & Testing'',
     ''date: "2019-11-13"'',
     ''description: Most people say testing isn't sexy but wait till you see these snapshot tests '' @ [CHR 0xF0, CHR 0x9F, CHR 0x98, CHR 0x89] @ ''.'',
     ''---'']\<close>

text \<open>The document after the separator at react-native-linting-and-testing/index.md:404:\<close>

definition react_native_basics :: "string list" where
  \<open>react_native_basics =
    [''---'',
     ''title: React-Native Basics'',
     ''date: "2019-08-22"'',
     ''description: An intro to React-Native.'',
     ''---'']\<close>

text \<open>React-native-navigation-v5/index.md:\<close>

definition react_native_navigation_v5 :: "string list" where
  \<open>react_native_navigation_v5 =
    [''---'',
     ''title: React-Native Navigation'',
     ''date: "2019-11-19"'',
     ''description: Redoing my original navigation post with the new react-navigation v5.'',
     ''---'']\<close>

text \<open>React-native-state-management/index.md:\<close>

definition react_native_state_management :: "string list" where
  \<open>react_native_state_management =
    [''---'',
     ''title: React-Native State Management'',
     ''date: "2019-08-31"'',
     ''description: How to manage state in your React-Native app.'',
     ''---'']\<close>

text \<open>Testing-and-ci-cd/index.md:\<close>

definition testing_and_ci_cd :: "string list" where
  \<open>testing_and_ci_cd =
    [''---'',
     ''title: Testing & CI/CD in JavaScript Projects'',
     ''date: "2019-09-6"'',
     ''description: JavaScript testing best practices.'',
     ''---'']\<close>

text \<open>The unnamed file part_000:\<close>

definition part_000 :: "string list" where
  \<open>part_000 =
    [''---'',
     ''title: iOS and Android Notifications Using react-native-firebase '',
     ''date: "2019-09-26"'',
     ''description: How to add push and local notifications to your React-Native app for both iOS and Android using the library react-native-firebase.'',
     ''---'']\<close>

definition markdown_documents :: "string list list" where
  "markdown_documents =
    [javascript_basics, react_native_routing, react_native_styling,
     react_and_typescript, react_native_dark_mode, react_native_dark_mode_187,
     react_native_internationalization, react_native_linting_and_testing,
     react_native_basics, react_native_navigation_v5, react_native_state_management,
     testing_and_ci_cd, part_000]"

subsection \<open>Reading a front-matter block\<close>

text \<open>The text after \<^verbatim>\<open>key: \<close> on a line that starts so.\<close>

definition field_value :: "string \<Rightarrow> string \<Rightarrow> string option" where
  "field_value k l =
    (if take (length k + 2) l = k @ '': '' then Some (drop (length k + 2) l) else None)"

text \<open>The block of the specification: a line \<^verbatim>\<open>---\<close>, the fields \<^verbatim>\<open>title\<close>,
  \<^verbatim>\<open>date\<close> and \<^verbatim>\<open>description\<close> in this order, a line \<^verbatim>\<open>---\<close>.\<close>

fun front_matter :: "string list \<Rightarrow> (string \<times> string \<times> string) option" where
  "front_matter (l0 # l1 # l2 # l3 # l4 # body) =
    (if l0 = ''---'' \<and> l4 = ''---'' then
       (case field_value ''title'' l1 of None \<Rightarrow> None
        | Some t \<Rightarrow> (case field_value ''date'' l2 of None \<Rightarrow> None
          | Some d \<Rightarrow> (case field_value ''description'' l3 of None \<Rightarrow> None
            | Some e \<Rightarrow> Some (t, d, e))))
     else None)"
| "front_matter ls = None"

definition quoted :: "string \<Rightarrow> bool" where
  "quoted s = (2 \<le> length s \<and> hd s = CHR 0x22 \<and> last s = CHR 0x22)"

definition unquote :: "string \<Rightarrow> string" where
  "unquote s = butlast (tl s)"

text \<open>A plain scalar: not empty, and not opened by a quote.\<close>

definition plain :: "string \<Rightarrow> bool" where
  "plain s = (s \<noteq> [] \<and> hd s \<noteq> CHR 0x22 \<and> hd s \<noteq> CHR 0x27)"

definition digit :: "char \<Rightarrow> bool" where
  "digit c = (c \<in> set ''0123456789'')"

text \<open>\<^verbatim>\<open>YYYY-MM-DD\<close>: four digits, a hyphen, two digits, a hyphen, two digits.\<close>

definition ymd :: "string \<Rightarrow> bool" where
  "ymd s =
    (length s = 10 \<and> list_all digit (take 4 s) \<and> take 1 (drop 4 s) = ''-'' \<and>
     list_all digit (take 2 (drop 5 s)) \<and> take 1 (drop 7 s) = ''-'' \<and>
     list_all digit (drop 8 s))"

text \<open>The format in the specification's words: the three values are quoted strings,
  the date of the form \<^verbatim>\<open>YYYY-MM-DD\<close>.\<close>

definition spec_front_matter :: "string list \<Rightarrow> bool" where
  "spec_front_matter f =
    (case front_matter f of None \<Rightarrow> False
     | Some (t, d, e) \<Rightarrow> quoted t \<and> quoted d \<and> ymd (unquote d) \<and> quoted e)"

text \<open>The format the files are written in: title and description are plain scalars,
  the date is a quoted string.\<close>

definition written_front_matter :: "string list \<Rightarrow> bool" where
  "written_front_matter f =
    (case front_matter f of None \<Rightarrow> False
     | Some (t, d, e) \<Rightarrow> plain t \<and> quoted d \<and> plain e)"

definition date_is_ymd :: "string list \<Rightarrow> bool" where
  "date_is_ymd f =
    (case front_matter f of None \<Rightarrow> False
     | Some (t, d, e) \<Rightarrow> quoted d \<and> ymd (unquote d))"

text \<open>The documents that open with the line \<^verbatim>\<open>---\<close>.\<close>

definition opens_block :: "string list \<Rightarrow> bool" where
  "opens_block f = (take 1 f = [''---''])"

definition front_matter_documents :: "string list list" where
  "front_matter_documents = filter opens_block markdown_documents"

section \<open>Properties of the biography component\<close>

lemmas sample_defs = jane_def jane_site_def jane_metadata_def jane_social_def
  file_of_def sharp_of_def hyphenated_def hyphen_site_def hyphen_metadata_def
  hyphen_social_def jane_without_avatar_def jane_site_query_def

lemmas read_defs = hyperlinks_def images_def text_blocks_def attr_def

lemmas size_defs = sized_by_scale_def dimensions_def style_dimensions_def
  rendition_dimensions_def style_of_def dimension_keys_def

text \<open>
  In the theorems below a query result is resolved when the objects the callback reads
  from are there: \<open>site d = Some s\<close>, \<open>siteMetadata s = Some m\<close>,
  \<open>social m = Some so\<close> and, for \<^verbatim>\<open>bio.js\<close>, \<open>avatar d = Some f\<close> and
  \<open>childImageSharp f = Some c\<close>. The first hyperlink of the tree is the profile link,
  the second the contact link.
\<close>

text \<open>
  \<^bold>\<open>C1.\<close> For every resolved query result whose \<^verbatim>\<open>social.github\<close> is a non-empty
  string \<open>g\<close>, both versions of the component render, and the profile link of the tree
  has the \<^verbatim>\<open>href\<close> \<^verbatim>\<open>https://github.com/\<close> followed by \<open>g\<close>, the \<^verbatim>\<open>target\<close>
  \<^verbatim>\<open>_blank\<close> and the \<^verbatim>\<open>rel\<close> \<^verbatim>\<open>noopener noreferrer\<close>.
\<close>

theorem Bio_profile_link:
  fixes d :: "'f BioQuery"
  assumes "site d = Some s" and "siteMetadata s = Some m" and "social m = Some so"
    and "avatar d = Some f" and "childImageSharp f = Some c"
    and "github so = Str g" and "g \<noteq> []"
  shows "(\<exists>t a b. Bio rhythm d = Inr t \<and> hyperlinks t = [a, b] \<and>
       attr a ''href'' = Some (PVal (Str (''https://github.com/'' @ g))) \<and>
       attr a ''target'' = Some (PVal (Str ''_blank'')) \<and>
       attr a ''rel'' = Some (PVal (Str ''noopener noreferrer''))) \<and>
     (\<exists>t a b. (Bio_part_001 rhythm pic d :: error + ('r, 'f) element) = Inr t \<and>
       hyperlinks t = [a, b] \<and>
       attr a ''href'' = Some (PVal (Str (''https://github.com/'' @ g))) \<and>
       attr a ''target'' = Some (PVal (Str ''_blank'')) \<and>
       attr a ''rel'' = Some (PVal (Str ''noopener noreferrer'')))"
  using assms by (simp add: Bio_def Bio_part_001_def read_defs Let_def)

theorem Bio_profile_link_witness:
  "(\<exists>t a b. Bio rhythm_lines (jane fixed_50) = Inr t \<and> hyperlinks t = [a, b] \<and>
       attr a ''href'' = Some (PVal (Str ''https://github.com/janedoe'')) \<and>
       attr a ''target'' = Some (PVal (Str ''_blank'')) \<and>
       attr a ''rel'' = Some (PVal (Str ''noopener noreferrer''))) \<and>
     (\<exists>t a b. (Bio_part_001 rhythm_lines profile_pic_url (jane fixed_50)
          :: error + (rat, ImageRendition) element) = Inr t \<and>
       hyperlinks t = [a, b] \<and>
       attr a ''href'' = Some (PVal (Str ''https://github.com/janedoe'')) \<and>
       attr a ''target'' = Some (PVal (Str ''_blank'')) \<and>
       attr a ''rel'' = Some (PVal (Str ''noopener noreferrer'')))"
  using Bio_profile_link [of "jane fixed_50" jane_site jane_metadata jane_social
      "file_of fixed_50" "sharp_of fixed_50" "''janedoe''" rhythm_lines profile_pic_url]
  by (simp add: sample_defs)

text \<open>
  \<^bold>\<open>C2.\<close> For every resolved query result whose \<^verbatim>\<open>social.email\<close> is a non-empty
  string \<open>e\<close>, both versions render, and the contact link of the tree has the
  \<^verbatim>\<open>href\<close> \<^verbatim>\<open>mailto:\<close> followed by \<open>e\<close>.
\<close>

theorem Bio_contact_link:
  fixes d :: "'f BioQuery"
  assumes "site d = Some s" and "siteMetadata s = Some m" and "social m = Some so"
    and "avatar d = Some f" and "childImageSharp f = Some c"
    and "email so = Str e" and "e \<noteq> []"
  shows "(\<exists>t a b. Bio rhythm d = Inr t \<and> hyperlinks t = [a, b] \<and>
       attr b ''href'' = Some (PVal (Str (''mailto:'' @ e)))) \<and>
     (\<exists>t a b. (Bio_part_001 rhythm pic d :: error + ('r, 'f) element) = Inr t \<and>
       hyperlinks t = [a, b] \<and>
       attr b ''href'' = Some (PVal (Str (''mailto:'' @ e))))"
  using assms by (simp add: Bio_def Bio_part_001_def read_defs Let_def)

theorem Bio_contact_link_witness:
  "(\<exists>t a b. Bio rhythm_lines (jane fixed_50) = Inr t \<and> hyperlinks t = [a, b] \<and>
       attr b ''href'' = Some (PVal (Str ''mailto:jane@example.com''))) \<and>
     (\<exists>t a b. (Bio_part_001 rhythm_lines profile_pic_url (jane fixed_50)
          :: error + (rat, ImageRendition) element) = Inr t \<and>
       hyperlinks t = [a, b] \<and>
       attr b ''href'' = Some (PVal (Str ''mailto:jane@example.com'')))"
  using Bio_contact_link [of "jane fixed_50" jane_site jane_metadata jane_social
      "file_of fixed_50" "sharp_of fixed_50" "''jane@example.com''" rhythm_lines
      profile_pic_url]
  by (simp add: sample_defs)

text \<open>
  \<^bold>\<open>C4.\<close> The scenario: for the author Jane Doe with the handle \<^verbatim>\<open>janedoe\<close> and the
  address \<^verbatim>\<open>jane@example.com\<close>, whatever the avatar rendition, both versions render a
  tree that shows the text \<^verbatim>\<open>Jane Doe\<close>, whose profile link goes to
  \<^verbatim>\<open>https://github.com/janedoe\<close> in a new browsing context, and whose contact link
  goes to \<^verbatim>\<open>mailto:jane@example.com\<close>.
\<close>

theorem Bio_scenario:
  "(\<exists>t a b. Bio rhythm (jane ref) = Inr t \<and> ''Jane Doe'' \<in> set (texts t) \<and>
       hyperlinks t = [a, b] \<and>
       attr a ''href'' = Some (PVal (Str ''https://github.com/janedoe'')) \<and>
       attr a ''target'' = Some (PVal (Str ''_blank'')) \<and>
       attr b ''href'' = Some (PVal (Str ''mailto:jane@example.com''))) \<and>
     (\<exists>t a b. (Bio_part_001 rhythm pic (jane ref) :: error + ('r, 'f) element) = Inr t \<and>
       ''Jane Doe'' \<in> set (texts t) \<and>
       hyperlinks t = [a, b] \<and>
       attr a ''href'' = Some (PVal (Str ''https://github.com/janedoe'')) \<and>
       attr a ''target'' = Some (PVal (Str ''_blank'')) \<and>
       attr b ''href'' = Some (PVal (Str ''mailto:jane@example.com'')))"
  by (simp add: Bio_def Bio_part_001_def read_defs Let_def sample_defs)

text \<open>
  \<^bold>\<open>C5.\<close> For every resolved query result and every handle \<open>g\<close>, whatever characters
  it is made of (a hyphen, reserved characters), what follows
  \<^verbatim>\<open>https://github.com/\<close> in the profile link's \<^verbatim>\<open>href\<close> is \<open>g\<close> itself: nothing is
  encoded or escaped.
\<close>

theorem Bio_handle_verbatim:
  fixes d :: "'f BioQuery"
  assumes "site d = Some s" and "siteMetadata s = Some m" and "social m = Some so"
    and "avatar d = Some f" and "childImageSharp f = Some c"
    and "github so = Str g"
  shows "(\<exists>t a b h. Bio rhythm d = Inr t \<and> hyperlinks t = [a, b] \<and>
       attr a ''href'' = Some (PVal (Str h)) \<and>
       take (length ''https://github.com/'') h = ''https://github.com/'' \<and>
       drop (length ''https://github.com/'') h = g) \<and>
     (\<exists>t a b h. (Bio_part_001 rhythm pic d :: error + ('r, 'f) element) = Inr t \<and>
       hyperlinks t = [a, b] \<and>
       attr a ''href'' = Some (PVal (Str h)) \<and>
       take (length ''https://github.com/'') h = ''https://github.com/'' \<and>
       drop (length ''https://github.com/'') h = g)"
  using assms by (simp add: Bio_def Bio_part_001_def read_defs Let_def)

theorem Bio_handle_verbatim_witness:
  "(\<exists>t a b h. Bio rhythm_lines (hyphenated fixed_50) = Inr t \<and> hyperlinks t = [a, b] \<and>
       attr a ''href'' = Some (PVal (Str h)) \<and>
       take (length ''https://github.com/'') h = ''https://github.com/'' \<and>
       drop (length ''https://github.com/'') h = ''jane-doe?tab=a&b'') \<and>
     (\<exists>t a b h. (Bio_part_001 rhythm_lines profile_pic_url (hyphenated fixed_50)
          :: error + (rat, ImageRendition) element) = Inr t \<and>
       hyperlinks t = [a, b] \<and>
       attr a ''href'' = Some (PVal (Str h)) \<and>
       take (length ''https://github.com/'') h = ''https://github.com/'' \<and>
       drop (length ''https://github.com/'') h = ''jane-doe?tab=a&b'')"
  using Bio_handle_verbatim [of "hyphenated fixed_50" hyphen_site hyphen_metadata
      hyphen_social "file_of fixed_50" "sharp_of fixed_50" "''jane-doe?tab=a&b''"
      rhythm_lines profile_pic_url]
  by (simp add: sample_defs)

subsection \<open>When the render throws\<close>

lemma and_then_deref:
  "and_then (deref x) f = (case x of None \<Rightarrow> Inl TypeError | Some obj \<Rightarrow> f obj)"
  by (cases x) simp_all

lemma Bio_returns_iff:
  "(\<exists>t. Bio rhythm d = Inr t) = (has_metadata d \<and> has_avatar d)"
  by (simp add: Bio_def has_metadata_def has_avatar_def Let_def and_then_deref
      split: option.splits)

lemma Bio_part_001_returns_iff:
  "(\<exists>t. (Bio_part_001 rhythm pic d :: error + ('r, 'f) element) = Inr t) = has_metadata d"
  by (simp add: Bio_part_001_def has_metadata_def Let_def and_then_deref
      split: option.splits)

lemma Bio_throws_iff:
  "(Bio rhythm d = Inl TypeError) = (\<not> (has_metadata d \<and> has_avatar d))"
  by (simp add: Bio_def has_metadata_def has_avatar_def Let_def and_then_deref
      split: option.splits)

lemma has_author_and_social_metadata:
  "has_author_and_social d \<Longrightarrow> has_metadata d"
  by (auto simp add: has_author_and_social_def has_metadata_def split: option.splits)

text \<open>
  \<^bold>\<open>C8.\<close> Neither version checks its data or has a fallback branch. When the query
  result holds \<^verbatim>\<open>author\<close> and \<^verbatim>\<open>social\<close> with \<^verbatim>\<open>github\<close> and \<^verbatim>\<open>email\<close>, every
  field access of the plain-image version succeeds; those of \<^verbatim>\<open>bio.js\<close> succeed exactly
  when \<^verbatim>\<open>avatar\<close> and \<^verbatim>\<open>avatar.childImageSharp\<close> are there as well, and otherwise its
  render throws a \<^verbatim>\<open>TypeError\<close>.
\<close>

theorem Bio_field_access:
  fixes d :: "'f BioQuery"
  assumes "has_author_and_social d"
  shows "(\<exists>t. (Bio_part_001 rhythm pic d :: error + ('r, 'f) element) = Inr t) \<and>
     (\<exists>t. Bio rhythm d = Inr t) = has_avatar d \<and>
     (Bio rhythm d = Inl TypeError) = (\<not> has_avatar d)"
proof -
  have m: "has_metadata d"
    using assms by (rule has_author_and_social_metadata)
  have "\<exists>t. (Bio_part_001 rhythm pic d :: error + ('r, 'f) element) = Inr t"
    using m by (simp add: Bio_part_001_returns_iff)
  moreover have "(\<exists>t. Bio rhythm d = Inr t) = has_avatar d"
    using m by (simp add: Bio_returns_iff)
  moreover have "(Bio rhythm d = Inl TypeError) = (\<not> has_avatar d)"
    using m by (simp add: Bio_throws_iff)
  ultimately show ?thesis by simp
qed

theorem Bio_field_access_witness:
  "has_author_and_social (jane fixed_50) \<and> has_avatar (jane fixed_50) \<and>
   (\<exists>t. (Bio_part_001 rhythm_lines profile_pic_url (jane fixed_50)
      :: error + (rat, ImageRendition) element) = Inr t) \<and>
   (\<exists>t. Bio rhythm_lines (jane fixed_50) = Inr t)"
proof -
  have h: "has_author_and_social (jane fixed_50)"
    by (simp add: sample_defs has_author_and_social_def)
  have a: "has_avatar (jane fixed_50)"
    by (simp add: sample_defs has_avatar_def)
  show ?thesis
    using Bio_field_access [OF h, of rhythm_lines profile_pic_url] h a by simp
qed

text \<open>A result with all of \<^verbatim>\<open>siteMetadata\<close> whose file query matched nothing makes
  \<^verbatim>\<open>bio.js\<close> throw.\<close>

theorem Bio_avatar_counterexample:
  "has_author_and_social jane_without_avatar \<and>
   Bio rhythm_lines jane_without_avatar = Inl TypeError"
  by (simp add: Bio_def Let_def sample_defs has_author_and_social_def)

subsection \<open>The tree and the size of its image\<close>

text \<open>
  \<^bold>\<open>C6.\<close> For every resolved query result either version renders a tree with exactly
  one image element and exactly one text block, which holds the tree's hyperlinks,
  exactly two; the plain-image version needs no \<^verbatim>\<open>avatar\<close> for this. The plain-image
  version sizes its image by the scale: its dimensions are a width and a height of
  \<^verbatim>\<open>rhythm(3)\<close>. The image of \<^verbatim>\<open>bio.js\<close> is not sized by the scale: it is handed the
  rendition of the query result and has that rendition's width and height, its style
  adds the constants \<^verbatim>\<open>minWidth: 100\<close> and \<^verbatim>\<open>minHeight: 100\<close>, and of its style only
  \<^verbatim>\<open>marginRight\<close>, \<^verbatim>\<open>rhythm(1 / 2)\<close>, comes from the scale.
\<close>

theorem Bio_one_image_two_links:
  fixes d :: "'x ImageRendition_scheme BioQuery" and d' :: "'a SiteQuery_scheme"
  shows
    "(site d = Some s \<and> siteMetadata s = Some m \<and> social m = Some so \<and>
      avatar d = Some f \<and> childImageSharp f = Some c \<longrightarrow>
      (\<exists>t i p. Bio rhythm d = Inr t \<and> images t = [i] \<and>
         attr i ''fixed'' = Some (PFixed (fixed c)) \<and>
         rendition_dimensions i =
           (case fixed c of None \<Rightarrow> []
            | Some r \<Rightarrow> [(''width'', CNum (int (width r))),
                (''height'', CNum (int (height r)))]) \<and>
         style_of i =
           [(''marginRight'', CScale (rhythm (1 / 2))), (''marginBottom'', CNum 0),
            (''minWidth'', CNum 100), (''minHeight'', CNum 100),
            (''borderRadius'', CStr ''100%'')] \<and>
         style_dimensions i = [(''minWidth'', CNum 100), (''minHeight'', CNum 100)] \<and>
         \<not> sized_by_scale i \<and>
         text_blocks t = [p] \<and> length (hyperlinks p) = 2 \<and>
         hyperlinks t = hyperlinks p)) \<and>
     (site d' = Some s' \<and> siteMetadata s' = Some m' \<and> social m' = Some so' \<longrightarrow>
      (\<exists>t i p. (Bio_part_001 rhythm pic d'
            :: error + ('r, 'x ImageRendition_scheme) element) = Inr t \<and>
         images t = [i] \<and>
         dimensions i = [(''width'', CScale (rhythm 3)), (''height'', CScale (rhythm 3))] \<and>
         sized_by_scale i \<and>
         text_blocks t = [p] \<and> length (hyperlinks p) = 2 \<and>
         hyperlinks t = hyperlinks p))"
proof (intro conjI impI)
  assume "site d = Some s \<and> siteMetadata s = Some m \<and> social m = Some so \<and>
      avatar d = Some f \<and> childImageSharp f = Some c"
  then show "\<exists>t i p. Bio rhythm d = Inr t \<and> images t = [i] \<and>
         attr i ''fixed'' = Some (PFixed (fixed c)) \<and>
         rendition_dimensions i =
           (case fixed c of None \<Rightarrow> []
            | Some r \<Rightarrow> [(''width'', CNum (int (width r))),
                (''height'', CNum (int (height r)))]) \<and>
         style_of i =
           [(''marginRight'', CScale (rhythm (1 / 2))), (''marginBottom'', CNum 0),
            (''minWidth'', CNum 100), (''minHeight'', CNum 100),
            (''borderRadius'', CStr ''100%'')] \<and>
         style_dimensions i = [(''minWidth'', CNum 100), (''minHeight'', CNum 100)] \<and>
         \<not> sized_by_scale i \<and>
         text_blocks t = [p] \<and> length (hyperlinks p) = 2 \<and>
         hyperlinks t = hyperlinks p"
    by (simp add: Bio_def Let_def read_defs size_defs split: option.splits)
next
  assume "site d' = Some s' \<and> siteMetadata s' = Some m' \<and> social m' = Some so'"
  then show "\<exists>t i p. (Bio_part_001 rhythm pic d'
            :: error + ('r, 'x ImageRendition_scheme) element) = Inr t \<and>
         images t = [i] \<and>
         dimensions i = [(''width'', CScale (rhythm 3)), (''height'', CScale (rhythm 3))] \<and>
         sized_by_scale i \<and>
         text_blocks t = [p] \<and> length (hyperlinks p) = 2 \<and>
         hyperlinks t = hyperlinks p"
    by (simp add: Bio_part_001_def Let_def read_defs size_defs)
qed

theorem Bio_one_image_two_links_witness:
  "(\<exists>t i p. Bio rhythm_lines (jane fixed_50) = Inr t \<and> images t = [i] \<and>
       attr i ''fixed'' = Some (PFixed (Some fixed_50)) \<and>
       dimensions i =
         [(''width'', CNum 50), (''height'', CNum 50),
          (''minWidth'', CNum 100), (''minHeight'', CNum 100)] \<and>
       \<not> sized_by_scale i \<and>
       text_blocks t = [p] \<and> length (hyperlinks p) = 2 \<and> hyperlinks t = hyperlinks p) \<and>
   (\<exists>t i p. (Bio_part_001 rhythm_lines profile_pic_url jane_site_query
          :: error + (rat, ImageRendition) element) = Inr t \<and>
       images t = [i] \<and>
       dimensions i = [(''width'', CScale 3), (''height'', CScale 3)] \<and>
       sized_by_scale i \<and>
       text_blocks t = [p] \<and> length (hyperlinks p) = 2 \<and> hyperlinks t = hyperlinks p)"
  using Bio_one_image_two_links [of "jane fixed_50" jane_site jane_metadata jane_social
      "file_of fixed_50" "sharp_of fixed_50" rhythm_lines jane_site_query jane_site
      jane_metadata jane_social profile_pic_url]
  by (auto simp add: sample_defs rhythm_lines_def fixed_50_def dimensions_def)

text \<open>The image that \<^verbatim>\<open>bio.js\<close> renders for the scenario is not sized by the scale.\<close>

theorem Bio_image_size_counterexample:
  "map sized_by_scale (concat (map images (rendered (Bio rhythm_lines (jane fixed_50)))))
    = [False]"
  by (simp add: Bio_def Let_def sample_defs read_defs size_defs fixed_50_def)

subsection \<open>The two versions side by side\<close>

text \<open>
  \<^bold>\<open>C9.\<close> For every resolved query result of \<^verbatim>\<open>bio.js\<close> whose \<^verbatim>\<open>avatar\<close> and
  \<^verbatim>\<open>avatar.childImageSharp\<close> are there, and every query result of the plain-image
  version with the same \<^verbatim>\<open>site\<close>, the two versions render the same two hyperlinks,
  whatever scale and picture each is given: the profile link with its \<^verbatim>\<open>href\<close>,
  \<^verbatim>\<open>target="_blank"\<close> and \<^verbatim>\<open>rel="noopener noreferrer"\<close>, and the contact link with its
  \<^verbatim>\<open>href\<close> and neither \<^verbatim>\<open>target\<close> nor \<^verbatim>\<open>rel\<close>.
\<close>

theorem Bio_variants_same_links:
  fixes d :: "'f BioQuery" and d' :: "'a SiteQuery_scheme"
  assumes "site d = Some s" and "siteMetadata s = Some m" and "social m = Some so"
    and "avatar d = Some f" and "childImageSharp f = Some c"
    and "site d' = site d"
  shows "\<exists>t t' a b. Bio rhythm d = Inr t \<and>
     (Bio_part_001 rhythm' pic d' :: error + ('r, 'f) element) = Inr t' \<and>
     hyperlinks t = [a, b] \<and> hyperlinks t' = [a, b] \<and>
     attr a ''href'' = Some (PVal (Str (''https://github.com/'' @ to_string (github so)))) \<and>
     attr a ''target'' = Some (PVal (Str ''_blank'')) \<and>
     attr a ''rel'' = Some (PVal (Str ''noopener noreferrer'')) \<and>
     attr b ''href'' = Some (PVal (Str (''mailto:'' @ to_string (email so)))) \<and>
     attr b ''target'' = None \<and> attr b ''rel'' = None"
  using assms by (simp add: Bio_def Bio_part_001_def read_defs Let_def)

theorem Bio_variants_same_links_witness:
  "\<exists>t t' a b. Bio rhythm_lines (jane fixed_50) = Inr t \<and>
     Bio_part_001 rhythm_lines profile_pic_url jane_site_query = Inr t' \<and>
     hyperlinks t = [a, b] \<and> hyperlinks t' = [a, b] \<and>
     attr a ''href'' = Some (PVal (Str ''https://github.com/janedoe'')) \<and>
     attr a ''target'' = Some (PVal (Str ''_blank'')) \<and>
     attr a ''rel'' = Some (PVal (Str ''noopener noreferrer'')) \<and>
     attr b ''href'' = Some (PVal (Str ''mailto:jane@example.com'')) \<and>
     attr b ''target'' = None \<and> attr b ''rel'' = None"
  using Bio_variants_same_links [of "jane fixed_50" jane_site jane_metadata jane_social
      "file_of fixed_50" "sharp_of fixed_50" jane_site_query rhythm_lines rhythm_lines
      profile_pic_url]
  by (simp add: sample_defs)

text \<open>Without an avatar the versions differ: \<^verbatim>\<open>bio.js\<close> throws and renders no
  hyperlink, the plain-image version renders both.\<close>

theorem Bio_variants_counterexample:
  "concat (map hyperlinks (rendered (Bio rhythm_lines jane_without_avatar))) = [] \<and>
   length (concat (map hyperlinks (rendered
     (Bio_part_001 rhythm_lines profile_pic_url jane_without_avatar
        :: error + (rat, ImageRendition) element)))) = 2"
  by (simp add: Bio_def Bio_part_001_def Let_def sample_defs read_defs)

subsection \<open>The alternative text of the image\<close>

text \<open>Whenever a render returns a tree, the tree has one image and its \<^verbatim>\<open>alt\<close> is
  the \<^verbatim>\<open>author\<close> of the query result.\<close>

lemma Bio_render_alt:
  assumes "Bio rhythm d = Inr t"
  shows "\<exists>s m i. site d = Some s \<and> siteMetadata s = Some m \<and> images t = [i] \<and>
     attr i ''alt'' = Some (PVal (author m))"
  using assms
  by (auto simp add: Bio_def and_then_deref read_defs Let_def split: option.splits)

lemma Bio_part_001_render_alt:
  assumes "Bio_part_001 rhythm pic d = Inr t"
  shows "\<exists>s m i. site d = Some s \<and> siteMetadata s = Some m \<and> images t = [i] \<and>
     attr i ''alt'' = Some (PVal (author m))"
  using assms
  by (auto simp add: Bio_part_001_def and_then_deref read_defs Let_def split: option.splits)

text \<open>
  \<^bold>\<open>C10.\<close> Either version, on every query result it renders, returns a tree with
  exactly one image element whose \<^verbatim>\<open>alt\<close> is the \<^verbatim>\<open>author\<close> of \<^verbatim>\<open>siteMetadata\<close>:
  \<^verbatim>\<open>bio.js\<close> when \<^verbatim>\<open>site\<close>, \<^verbatim>\<open>siteMetadata\<close>, \<^verbatim>\<open>social\<close>, \<^verbatim>\<open>avatar\<close> and
  \<^verbatim>\<open>childImageSharp\<close> are there, the plain-image version when \<^verbatim>\<open>site\<close>,
  \<^verbatim>\<open>siteMetadata\<close> and \<^verbatim>\<open>social\<close> are; by \<open>Bio_returns_iff\<close> and
  \<open>Bio_part_001_returns_iff\<close> neither renders on any other result.
\<close>

theorem Bio_alt_is_author:
  fixes d :: "'f BioQuery" and d' :: "'a SiteQuery_scheme"
  shows
    "(site d = Some s \<and> siteMetadata s = Some m \<and> social m = Some so \<and>
      avatar d = Some f \<and> childImageSharp f = Some c \<longrightarrow>
      (\<exists>t i. Bio rhythm d = Inr t \<and> images t = [i] \<and>
         attr i ''alt'' = Some (PVal (author m)))) \<and>
     (site d' = Some s' \<and> siteMetadata s' = Some m' \<and> social m' = Some so' \<longrightarrow>
      (\<exists>t i. (Bio_part_001 rhythm pic d' :: error + ('r, 'f) element) = Inr t \<and>
         images t = [i] \<and> attr i ''alt'' = Some (PVal (author m'))))"
  by (simp add: Bio_def Bio_part_001_def read_defs Let_def)

theorem Bio_alt_is_author_witness:
  "(\<exists>t i. Bio rhythm_lines (jane fixed_50) = Inr t \<and> images t = [i] \<and>
       attr i ''alt'' = Some (PVal (Str ''Jane Doe''))) \<and>
   (\<exists>t i. (Bio_part_001 rhythm_lines profile_pic_url jane_site_query
          :: error + (rat, ImageRendition) element) = Inr t \<and>
       images t = [i] \<and> attr i ''alt'' = Some (PVal (Str ''Jane Doe'')))"
  using Bio_alt_is_author [of "jane fixed_50" jane_site jane_metadata jane_social
      "file_of fixed_50" "sharp_of fixed_50" rhythm_lines jane_site_query jane_site
      jane_metadata jane_social profile_pic_url]
  by (simp add: sample_defs)

section \<open>Properties of the content files\<close>

lemmas document_defs = javascript_basics_def react_native_routing_def
  react_native_styling_def react_and_typescript_def react_native_dark_mode_def
  react_native_dark_mode_187_def react_native_internationalization_def
  react_native_linting_and_testing_def react_native_basics_def
  react_native_navigation_v5_def react_native_state_management_def
  testing_and_ci_cd_def part_000_def

lemmas format_defs = field_value_def quoted_def unquote_def plain_def digit_def ymd_def

text \<open>A block is read from the first five lines of a document, and whether a document
  opens with \<^verbatim>\<open>---\<close> from its first line: the lines left out above change nothing.\<close>

lemma front_matter_head:
  "front_matter (l0 # l1 # l2 # l3 # l4 # body) = front_matter [l0, l1, l2, l3, l4]"
  by simp

lemma opens_block_head:
  "opens_block (l0 # body) = opens_block [l0]"
  by (simp add: opens_block_def)

text \<open>Twelve of the thirteen documents open with \<^verbatim>\<open>---\<close>.\<close>

lemma front_matter_documents_eq:
  "front_matter_documents =
    [javascript_basics, react_native_routing, react_native_styling,
     react_and_typescript, react_native_dark_mode,
     react_native_internationalization, react_native_linting_and_testing,
     react_native_basics, react_native_navigation_v5, react_native_state_management,
     testing_and_ci_cd, part_000]"
  by (simp add: front_matter_documents_def markdown_documents_def opens_block_def
      document_defs)

lemma other_front_matter_documents_eq:
  "removeAll testing_and_ci_cd front_matter_documents =
    [javascript_basics, react_native_routing, react_native_styling,
     react_and_typescript, react_native_dark_mode,
     react_native_internationalization, react_native_linting_and_testing,
     react_native_basics, react_native_navigation_v5, react_native_state_management,
     part_000]"
  unfolding front_matter_documents_eq
  by (simp add: document_defs)

text \<open>
  \<^bold>\<open>C7.\<close> Every Markdown document of the sources that opens with the line \<^verbatim>\<open>---\<close>,
  twelve of the thirteen, begins with a front-matter block: the fields \<^verbatim>\<open>title\<close>,
  \<^verbatim>\<open>date\<close> and \<^verbatim>\<open>description\<close>, then a line \<^verbatim>\<open>---\<close>. The title and the description
  are plain scalars, not quoted strings; the date is a quoted string, and in each of
  the eleven documents other than \<^verbatim>\<open>testing-and-ci-cd/index.md\<close> it has the form
  \<^verbatim>\<open>YYYY-MM-DD\<close>.
\<close>

theorem front_matter_documents_format:
  "length markdown_documents = 13 \<and>
   length front_matter_documents = 12 \<and>
   list_all written_front_matter front_matter_documents \<and>
   length (removeAll testing_and_ci_cd front_matter_documents) = 11 \<and>
   list_all date_is_ymd (removeAll testing_and_ci_cd front_matter_documents)"
  unfolding other_front_matter_documents_eq front_matter_documents_eq
  by (simp add: markdown_documents_def document_defs written_front_matter_def
      date_is_ymd_def format_defs)

text \<open>The block of \<^verbatim>\<open>testing-and-ci-cd/index.md\<close> is not in the format of the
  specification: its title and description are not quoted, and its date is
  \<^verbatim>\<open>"2019-09-6"\<close>. The document that starts at line 187 of
  \<^verbatim>\<open>react-native-dark-mode/index.md\<close> opens with a heading and has no block.\<close>

theorem front_matter_counterexample:
  "\<not> spec_front_matter testing_and_ci_cd \<and>
   front_matter react_native_dark_mode_187 = None"
  by (simp add: spec_front_matter_def testing_and_ci_cd_def
      react_native_dark_mode_187_def format_defs)

end
